theory Spec2Isabelle
  imports Complex_Main "HOL-Library.Char_ord" "HOL-Library.List_Lexorder"
begin

section \<open>Changepoint analysis of shape functions (ebm_utils/analysis/changepoints.py)\<close>

text \<open>
  The functions of \<open>changepoints.py\<close> as HOL functions. A numpy array is a list, an
  index is an \<open>int\<close> (Python's negative indices included), an exception is the
  \<open>Inl\<close> of a sum, and the \<open>np.seterr\<close> configuration is a record that
  \<open>calc_slopes\<close> and its callers pass along. What other modules and libraries
  compute is a parameter: the embedding matrix of \<open>calc_embeddings\<close>, the
  permutation of \<open>np.argsort\<close>, the changepoints of \<open>BayesOffline\<close>, and the text
  numpy writes for a float.
\<close>

subsection \<open>Floating-point values\<close>

text \<open>
  A numpy float64 is a finite number, one of the two infinities, or NaN. Finite
  arithmetic is taken exact (no rounding, no overflow), and zero carries no sign:
  a nonzero finite number divided by zero is the infinity with the sign of the
  numerator. Everything the source does with non-finite values (the mask of
  \<open>calc_slopes\<close>, comparisons with NaN, the mean of an empty slice) is kept.
\<close>

datatype fl = Fin real | PInf | NInf | NaN

fun fl_neg :: "fl \<Rightarrow> fl" where
  "fl_neg (Fin r) = Fin (- r)"
| "fl_neg PInf = NInf"
| "fl_neg NInf = PInf"
| "fl_neg NaN = NaN"

fun fl_add :: "fl \<Rightarrow> fl \<Rightarrow> fl" where
  "fl_add (Fin a) (Fin b) = Fin (a + b)"
| "fl_add NaN _ = NaN"
| "fl_add _ NaN = NaN"
| "fl_add PInf NInf = NaN"
| "fl_add NInf PInf = NaN"
| "fl_add PInf _ = PInf"
| "fl_add _ PInf = PInf"
| "fl_add NInf _ = NInf"
| "fl_add _ NInf = NInf"

definition fl_sub :: "fl \<Rightarrow> fl \<Rightarrow> fl" where
  "fl_sub a b = fl_add a (fl_neg b)"

fun fl_mul :: "fl \<Rightarrow> fl \<Rightarrow> fl" where
  "fl_mul (Fin a) (Fin b) = Fin (a * b)"
| "fl_mul NaN _ = NaN"
| "fl_mul _ NaN = NaN"
| "fl_mul (Fin a) PInf = (if a = 0 then NaN else if 0 < a then PInf else NInf)"
| "fl_mul (Fin a) NInf = (if a = 0 then NaN else if 0 < a then NInf else PInf)"
| "fl_mul PInf (Fin b) = (if b = 0 then NaN else if 0 < b then PInf else NInf)"
| "fl_mul NInf (Fin b) = (if b = 0 then NaN else if 0 < b then NInf else PInf)"
| "fl_mul PInf PInf = PInf"
| "fl_mul PInf NInf = NInf"
| "fl_mul NInf PInf = NInf"
| "fl_mul NInf NInf = PInf"

fun fl_div :: "fl \<Rightarrow> fl \<Rightarrow> fl" where
  "fl_div (Fin a) (Fin b) =
     (if b = 0 then (if a = 0 then NaN else if 0 < a then PInf else NInf)
      else Fin (a / b))"
| "fl_div NaN _ = NaN"
| "fl_div _ NaN = NaN"
| "fl_div (Fin a) PInf = Fin 0"
| "fl_div (Fin a) NInf = Fin 0"
| "fl_div PInf (Fin b) = (if 0 \<le> b then PInf else NInf)"
| "fl_div NInf (Fin b) = (if 0 \<le> b then NInf else PInf)"
| "fl_div PInf PInf = NaN"
| "fl_div PInf NInf = NaN"
| "fl_div NInf PInf = NaN"
| "fl_div NInf NInf = NaN"

text \<open>\<open>a > b\<close> on floats: every comparison with NaN is false.\<close>

fun fl_gt :: "fl \<Rightarrow> fl \<Rightarrow> bool" where
  "fl_gt (Fin a) (Fin b) = (b < a)"
| "fl_gt NaN _ = False"
| "fl_gt _ NaN = False"
| "fl_gt PInf PInf = False"
| "fl_gt PInf _ = True"
| "fl_gt _ PInf = False"
| "fl_gt NInf _ = False"
| "fl_gt _ NInf = True"

fun fl_abs :: "fl \<Rightarrow> fl" where
  "fl_abs (Fin r) = Fin \<bar>r\<bar>"
| "fl_abs PInf = PInf"
| "fl_abs NInf = PInf"
| "fl_abs NaN = NaN"

fun fl_exp :: "fl \<Rightarrow> fl" where
  "fl_exp (Fin r) = Fin (exp r)"
| "fl_exp PInf = PInf"
| "fl_exp NInf = Fin 0"
| "fl_exp NaN = NaN"

fun isfinite :: "fl \<Rightarrow> bool" where
  "isfinite (Fin r) = True"
| "isfinite PInf = False"
| "isfinite NInf = False"
| "isfinite NaN = False"

subsection \<open>Exceptions, indexing and array helpers\<close>

datatype error = AssertionError | IndexError | ValueError | KeyError

definition bind_e :: "error + 'a \<Rightarrow> ('a \<Rightarrow> error + 'b) \<Rightarrow> error + 'b" where
  "bind_e m f = (case m of Inl e \<Rightarrow> Inl e | Inr v \<Rightarrow> f v)"

text \<open>\<open>arr[i]\<close> with an integer: a negative index counts from the end, an index out
  of range raises IndexError.\<close>

definition getitem :: "'a list \<Rightarrow> int \<Rightarrow> error + 'a" where
  "getitem arr i =
     (if 0 \<le> i \<and> i < int (length arr) then Inr (arr ! nat i)
      else if i < 0 \<and> - int (length arr) \<le> i then Inr (arr ! nat (int (length arr) + i))
      else Inl IndexError)"

text \<open>\<open>arr[idx]\<close> with an array of integer indices.\<close>

fun take_idx :: "'a list \<Rightarrow> int list \<Rightarrow> error + 'a list" where
  "take_idx xs [] = Inr []"
| "take_idx xs (i # is) =
     bind_e (getitem xs i) (\<lambda>v. bind_e (take_idx xs is) (\<lambda>vs. Inr (v # vs)))"

text \<open>\<open>arr[lo:hi]\<close>: Python clips the bounds of a slice, negative bounds count from
  the end.\<close>

definition slice_bound :: "nat \<Rightarrow> int \<Rightarrow> nat" where
  "slice_bound n k = (if k < 0 then nat (max 0 (int n + k)) else min (nat k) n)"

definition slice :: "'a list \<Rightarrow> int \<Rightarrow> int \<Rightarrow> 'a list" where
  "slice xs lo hi =
     (let l = slice_bound (length xs) lo; h = slice_bound (length xs) hi
      in take (h - l) (drop l xs))"

text \<open>\<open>np.where(mask)[0]\<close>: the positions where the mask holds, ascending.\<close>

definition np_where :: "bool list \<Rightarrow> int list" where
  "np_where bs = map int (filter (\<lambda>i. bs ! i) [0..<length bs])"

text \<open>An elementwise binary operation on two one-dimensional arrays. numpy broadcasts
  an array of length one against the other and raises ValueError when the lengths
  differ otherwise.\<close>

definition np_binop :: "(fl \<Rightarrow> fl \<Rightarrow> fl) \<Rightarrow> fl list \<Rightarrow> fl list \<Rightarrow> error + fl list" where
  "np_binop f as bs =
     (if length as = length bs then Inr (map2 f as bs)
      else if length as = 1 then Inr (map (f (hd as)) bs)
      else if length bs = 1 then Inr (map (\<lambda>a. f a (hd bs)) as)
      else Inl ValueError)"

text \<open>\<open>range(lo, hi)\<close>.\<close>

definition py_range :: "int \<Rightarrow> int \<Rightarrow> int list" where
  "py_range lo hi = map (\<lambda>k. lo + int k) [0..<nat (hi - lo)]"

subsection \<open>The process-wide numeric-error configuration\<close>

text \<open>
  \<open>np.seterr\<close> keeps one mode for each kind of floating-point condition. The model
  holds the modes under which numpy reports a condition and carries on (the default
  is \<open>warn\<close>); the modes that abort a computation (\<open>raise\<close>, \<open>call\<close>) are
  not part of it.
\<close>

datatype err_mode = Ignore | Warn | Print | Log

record errstate =
  divide_mode :: err_mode
  over_mode :: err_mode
  under_mode :: err_mode
  invalid_mode :: err_mode

definition seterr_invalid :: "err_mode \<Rightarrow> errstate \<Rightarrow> errstate" where
  "seterr_invalid m st = st\<lparr>invalid_mode := m\<rparr>"

subsection \<open>calc_slopes\<close>

definition mask_nonfinite :: "fl list \<Rightarrow> fl list" where
  "mask_nonfinite slopes = map (\<lambda>s. if isfinite s then s else Fin 0) slopes"

text \<open>
  \<open>y_arr[1:] - y_arr[:-1]\<close> and \<open>x_arr[1:] - x_arr[:-1]\<close> subtract two arrays of the
  same length; their quotient is where two different lengths can meet. An exception
  at the division leaves the function before the second \<open>np.seterr\<close>.
\<close>

definition calc_slopes :: "errstate \<Rightarrow> fl list \<Rightarrow> fl list \<Rightarrow> (error + fl list) \<times> errstate" where
  "calc_slopes st x_arr y_arr =
     (let st1 = seterr_invalid Ignore st;
          dy = map2 fl_sub (drop 1 y_arr) (butlast y_arr);
          dx = map2 fl_sub (drop 1 x_arr) (butlast x_arr)
      in case np_binop fl_div dy dx of
           Inl e \<Rightarrow> (Inl e, st1)
         | Inr slopes \<Rightarrow> (Inr (mask_nonfinite slopes), seterr_invalid Warn st1))"

subsection \<open>Scoring one discontinuity window\<close>

text \<open>
  Python passes arguments by position and does not check their types, so the
  parameters of \<open>evaluate_discontinuity_sample\<close> hold whatever the caller puts in
  their places: a bool or a float. Truthiness, \<open>== 0.0\<close> and arithmetic are those of
  Python: \<open>False == 0.0\<close> holds, a float is true unless it is zero (NaN is true), and
  a bool counts as 0 or 1 in a product.
\<close>

datatype pyval = PyBool bool | PyFloat fl

fun truthy :: "pyval \<Rightarrow> bool" where
  "truthy (PyBool b) = b"
| "truthy (PyFloat f) = (f \<noteq> Fin 0)"

fun eq_zero :: "pyval \<Rightarrow> bool" where
  "eq_zero (PyBool b) = (\<not> b)"
| "eq_zero (PyFloat f) = (f = Fin 0)"

fun as_float :: "pyval \<Rightarrow> fl" where
  "as_float (PyBool b) = Fin (if b then 1 else 0)"
| "as_float (PyFloat f) = f"

text \<open>The parameters, in the order of the \<open>def\<close>: x_val, y_vals, y_true,
  idx_before_mid, slope.\<close>

definition evaluate_discontinuity_sample ::
  "fl \<Rightarrow> fl \<times> fl \<Rightarrow> pyval \<Rightarrow> pyval \<Rightarrow> pyval \<Rightarrow> fl" where
  "evaluate_discontinuity_sample x_val y_vals y_true idx_before_mid slope =
     (let begin_y_val = fst y_vals; end_y_val = snd y_vals;
          disc_val = (if truthy idx_before_mid then begin_y_val else end_y_val);
          cont_val = fl_add begin_y_val (fl_mul x_val (as_float slope))
      in if eq_zero y_true then fl_sub cont_val disc_val else fl_sub disc_val cont_val)"

text \<open>
  The loop of \<open>evaluate_discontinuity\<close> over \<open>range(prev_changepoint,
  next_changepoint)\<close>. The call passes, in this order: the x offset, the two y
  values, \<open>sample <= changepoint\<close>, \<open>cont_slope\<close> and \<open>y_true[sample]\<close>.
\<close>

fun eval_samples ::
  "fl list \<Rightarrow> fl list \<Rightarrow> fl \<Rightarrow> fl \<times> fl \<Rightarrow> int \<Rightarrow> fl \<Rightarrow> int list \<Rightarrow> fl \<Rightarrow> error + fl" where
  "eval_samples sorted_x y_true begin_x_val y_vals changepoint cont_slope [] log_p_diff =
     Inr log_p_diff"
| "eval_samples sorted_x y_true begin_x_val y_vals changepoint cont_slope (sample # rest) log_p_diff =
     bind_e (getitem sorted_x sample) (\<lambda>xv.
     bind_e (getitem y_true sample) (\<lambda>yt.
       eval_samples sorted_x y_true begin_x_val y_vals changepoint cont_slope rest
         (fl_add log_p_diff
            (evaluate_discontinuity_sample (fl_sub xv begin_x_val) y_vals
               (PyBool (sample \<le> changepoint)) (PyFloat cont_slope) (PyFloat yt)))))"

definition evaluate_discontinuity ::
  "fl list \<Rightarrow> fl list \<Rightarrow> fl list \<Rightarrow> int \<times> int \<times> int \<Rightarrow> error + fl" where
  "evaluate_discontinuity sorted_x sorted_y y_true changepoints =
     (case changepoints of (prev_changepoint, changepoint, next_changepoint) \<Rightarrow>
        if \<not> 0 < changepoint then Inl AssertionError
        else
          bind_e (getitem sorted_y prev_changepoint) (\<lambda>begin_y_val.
          bind_e (getitem sorted_y next_changepoint) (\<lambda>end_y_val.
          bind_e (getitem sorted_x prev_changepoint) (\<lambda>begin_x_val.
          bind_e (getitem sorted_x next_changepoint) (\<lambda>end_x_val.
            eval_samples sorted_x y_true begin_x_val (begin_y_val, end_y_val) changepoint
              (fl_div (fl_sub end_y_val begin_y_val) (fl_sub end_x_val begin_x_val))
              (py_range prev_changepoint next_changepoint) (Fin 0))))))"

subsection \<open>Discontinuities of one sorted feature\<close>

text \<open>The \<open>try\<close> block: \<open>changepoints[i + 1]\<close>, and \<open>len(slopes) - 1\<close> on IndexError.\<close>

definition next_changepoint_lookup :: "fl list \<Rightarrow> int list \<Rightarrow> nat \<Rightarrow> error + int" where
  "next_changepoint_lookup slopes changepoints i =
     (case getitem changepoints (int i + 1) of
        Inl IndexError \<Rightarrow> Inr (int (length slopes) - 1)
      | Inl e \<Rightarrow> Inl e
      | Inr c \<Rightarrow> Inr c)"

text \<open>One turn of the loop over \<open>enumerate(changepoints)\<close>. A row is the array
  \<open>[sorted_x[changepoint], n_samples, exp(log_p_diff / n_samples), log_p_diff]\<close>.\<close>

definition disc_step ::
  "fl list \<Rightarrow> fl list \<Rightarrow> fl list \<Rightarrow> int \<Rightarrow> fl list \<Rightarrow> int list \<Rightarrow> nat \<times> int
     \<Rightarrow> fl list list \<Rightarrow> error + fl list list" where
  "disc_step sorted_x sorted_y y_true min_samples slopes changepoints ic discontinuities =
     (case ic of (i, changepoint) \<Rightarrow>
        if i = 0 then Inr discontinuities
        else
          bind_e (getitem changepoints (int i - 1)) (\<lambda>prev_changepoint.
          bind_e (next_changepoint_lookup slopes changepoints i) (\<lambda>next_changepoint.
          bind_e (evaluate_discontinuity sorted_x sorted_y y_true
                    (prev_changepoint, changepoint, next_changepoint)) (\<lambda>log_p_diff.
            let n_samples = next_changepoint - prev_changepoint in
            if fl_gt log_p_diff (Fin 0) \<and> min_samples < n_samples then
              bind_e (getitem sorted_x changepoint) (\<lambda>xv.
                Inr (discontinuities @
                       [[xv, Fin (of_int n_samples),
                         fl_exp (fl_div log_p_diff (Fin (of_int n_samples))), log_p_diff]]))
            else Inr discontinuities))))"

fun disc_loop ::
  "fl list \<Rightarrow> fl list \<Rightarrow> fl list \<Rightarrow> int \<Rightarrow> fl list \<Rightarrow> int list \<Rightarrow> (nat \<times> int) list
     \<Rightarrow> fl list list \<Rightarrow> error + fl list list" where
  "disc_loop sorted_x sorted_y y_true min_samples slopes changepoints [] discontinuities =
     Inr discontinuities"
| "disc_loop sorted_x sorted_y y_true min_samples slopes changepoints (ic # rest) discontinuities =
     bind_e (disc_step sorted_x sorted_y y_true min_samples slopes changepoints ic discontinuities)
       (disc_loop sorted_x sorted_y y_true min_samples slopes changepoints rest)"

definition candidates :: "fl list \<Rightarrow> int list" where
  "candidates slopes = np_where (map (\<lambda>s. fl_gt (fl_abs s) (Fin 0)) slopes)"

definition find_discontinuities_in_sorted ::
  "errstate \<Rightarrow> fl list \<Rightarrow> fl list \<Rightarrow> fl list \<Rightarrow> int \<Rightarrow> (error + fl list list) \<times> errstate" where
  "find_discontinuities_in_sorted st sorted_x sorted_y y_true min_samples =
     (case calc_slopes st sorted_x sorted_y of
        (Inl e, st') \<Rightarrow> (Inl e, st')
      | (Inr slopes, st') \<Rightarrow>
          (let changepoints = candidates slopes
           in (disc_loop sorted_x sorted_y y_true min_samples slopes changepoints
                 (enumerate 0 changepoints) [], st')))"

subsection \<open>Tables\<close>

text \<open>
  \<open>pd.DataFrame(np.array(rows), columns=...)\<close>. \<open>np.array\<close> of a list of equally long
  rows is two-dimensional; \<open>np.array([])\<close> is one-dimensional of shape \<open>(0,)\<close>, which
  the constructor reshapes to \<open>(0, 1)\<close>, one column wide. The constructor raises
  ValueError unless the width of the values is the number of column names. Every
  cell of the tables built here is a string: an array that holds a feature name
  holds the numbers beside it as their decimal text.
\<close>

record table =
  tbl_columns :: "string list"
  tbl_rows :: "string list list"

definition np_array_width :: "'a list list \<Rightarrow> nat" where
  "np_array_width rows = (case rows of [] \<Rightarrow> 1 | r # _ \<Rightarrow> length r)"

definition pd_DataFrame :: "string list list \<Rightarrow> string list \<Rightarrow> error + table" where
  "pd_DataFrame rows cols =
     (if np_array_width rows \<noteq> length cols then Inl ValueError
      else Inr \<lparr>tbl_columns = cols, tbl_rows = rows\<rparr>)"

fun index_of :: "'a \<Rightarrow> 'a list \<Rightarrow> nat option" where
  "index_of a [] = None"
| "index_of a (x # xs) =
     (if x = a then Some 0 else map_option Suc (index_of a xs))"

text \<open>
  \<open>df.sort_values(col, ascending=False)\<close>: pandas reverses the rows, sorts them
  ascending by the column and reverses the outcome. The cells are strings, compared
  as Python compares strings: character by character, by code point. The order of
  rows with equal keys is whatever the sort leaves; the model's sort is stable.
\<close>

definition sort_values_desc :: "table \<Rightarrow> string \<Rightarrow> error + table" where
  "sort_values_desc df col =
     (case index_of col (tbl_columns df) of
        None \<Rightarrow> Inl KeyError
      | Some k \<Rightarrow> Inr (df\<lparr>tbl_rows := rev (sort_key (\<lambda>r. r ! k) (rev (tbl_rows df)))\<rparr>))"

subsection \<open>The data frame of predictors\<close>

text \<open>
  \<open>data_df\<close> is the list of its columns, each a name and its values, names distinct.
  The embedding matrix of \<open>calc_embeddings\<close> is kept by columns (the source reads it
  only as \<open>embeddings[:, j]\<close>). \<open>np.argsort\<close> and the text numpy gives a float in an
  array of strings are parameters: \<open>argsort\<close> and \<open>fmt\<close>.
\<close>

definition df_col :: "(string \<times> fl list) list \<Rightarrow> string \<Rightarrow> error + fl list" where
  "df_col data_df predictor =
     (case map_of data_df predictor of None \<Rightarrow> Inl KeyError | Some v \<Rightarrow> Inr v)"

definition sorted_xy ::
  "(fl list \<Rightarrow> int list) \<Rightarrow> fl list list \<Rightarrow> (string \<times> fl list) list \<Rightarrow> nat \<Rightarrow> string
     \<Rightarrow> error + fl list \<times> fl list" where
  "sorted_xy argsort embeddings data_df j predictor =
     bind_e (df_col data_df predictor) (\<lambda>vals.
       let order = argsort vals in
       bind_e (take_idx vals order) (\<lambda>sorted_x.
       bind_e (getitem embeddings (int j)) (\<lambda>emb_j.
       bind_e (take_idx emb_j order) (\<lambda>sorted_y.
         Inr (sorted_x, sorted_y)))))"

subsection \<open>find_discontinuities_from_ebm\<close>

text \<open>\<open>np.hstack\<close> of the column of feature names and the numeric rows.\<close>

definition hstack_names :: "(fl \<Rightarrow> string) \<Rightarrow> string \<Rightarrow> fl list list \<Rightarrow> string list list" where
  "hstack_names fmt predictor feature_discontinuities =
     map (\<lambda>row. predictor # map fmt row) feature_discontinuities"

fun disc_features ::
  "(fl \<Rightarrow> string) \<Rightarrow> (fl list \<Rightarrow> int list) \<Rightarrow> fl list list \<Rightarrow> (string \<times> fl list) list
     \<Rightarrow> fl list \<Rightarrow> int \<Rightarrow> (nat \<times> string) list \<Rightarrow> string list list \<Rightarrow> errstate
     \<Rightarrow> (error + string list list) \<times> errstate" where
  "disc_features fmt argsort embeddings data_df y_true min_samples [] discontinuities st =
     (Inr discontinuities, st)"
| "disc_features fmt argsort embeddings data_df y_true min_samples ((j, predictor) # rest)
     discontinuities st =
     (case sorted_xy argsort embeddings data_df j predictor of
        Inl e \<Rightarrow> (Inl e, st)
      | Inr (sorted_x, sorted_y) \<Rightarrow>
          (case find_discontinuities_in_sorted st sorted_x sorted_y y_true min_samples of
             (Inl e, st') \<Rightarrow> (Inl e, st')
           | (Inr feature_discontinuities, st') \<Rightarrow>
               if length feature_discontinuities = 0 then
                 disc_features fmt argsort embeddings data_df y_true min_samples rest
                   discontinuities st'
               else
                 disc_features fmt argsort embeddings data_df y_true min_samples rest
                   (discontinuities @ hstack_names fmt predictor feature_discontinuities) st'))"

definition find_discontinuities_from_ebm ::
  "(fl \<Rightarrow> string) \<Rightarrow> (fl list \<Rightarrow> int list) \<Rightarrow> errstate \<Rightarrow> fl list list
     \<Rightarrow> (string \<times> fl list) list \<Rightarrow> fl list \<Rightarrow> int \<Rightarrow> (error + table) \<times> errstate" where
  "find_discontinuities_from_ebm fmt argsort st embeddings data_df y_true min_samples =
     (case disc_features fmt argsort embeddings data_df y_true min_samples
             (enumerate 0 (map fst data_df)) [] st of
        (Inl e, st') \<Rightarrow> (Inl e, st')
      | (Inr discontinuities, st') \<Rightarrow>
          (bind_e (pd_DataFrame discontinuities
                     [''Feature'', ''Value'', ''# Samples'', ''Effect Size'', ''P-Ratio''])
             (\<lambda>discontinuities_df. sort_values_desc discontinuities_df ''P-Ratio''), st'))"

subsection \<open>Non-monotonicities\<close>

fun calculate_slopes_loop ::
  "(fl list \<Rightarrow> int list) \<Rightarrow> fl list list \<Rightarrow> (string \<times> fl list) list \<Rightarrow> (nat \<times> string) list
     \<Rightarrow> fl list list \<Rightarrow> errstate \<Rightarrow> (error + fl list list) \<times> errstate" where
  "calculate_slopes_loop argsort embeddings data_df [] all_slopes st = (Inr all_slopes, st)"
| "calculate_slopes_loop argsort embeddings data_df ((j, predictor) # rest) all_slopes st =
     (case sorted_xy argsort embeddings data_df j predictor of
        Inl e \<Rightarrow> (Inl e, st)
      | Inr (sorted_x, sorted_y) \<Rightarrow>
          (case calc_slopes st sorted_x sorted_y of
             (Inl e, st') \<Rightarrow> (Inl e, st')
           | (Inr slopes, st') \<Rightarrow>
               calculate_slopes_loop argsort embeddings data_df rest (all_slopes @ [slopes]) st'))"

text \<open>\<open>np.array(all_slopes).T\<close>: the rows must be equally long to form a matrix.\<close>

definition np_array_T :: "fl list list \<Rightarrow> error + fl list list" where
  "np_array_T rows =
     (if list_all (\<lambda>r. length r = np_array_width rows) rows then Inr (transpose rows)
      else Inl ValueError)"

definition calculate_slopes ::
  "(fl list \<Rightarrow> int list) \<Rightarrow> errstate \<Rightarrow> fl list list \<Rightarrow> (string \<times> fl list) list
     \<Rightarrow> (error + fl list list) \<times> errstate" where
  "calculate_slopes argsort st embeddings data_df =
     (case calculate_slopes_loop argsort embeddings data_df (enumerate 0 (map fst data_df)) [] st of
        (Inl e, st') \<Rightarrow> (Inl e, st')
      | (Inr all_slopes, st') \<Rightarrow> (np_array_T all_slopes, st'))"

text \<open>\<open>np.mean\<close>: the mean of an empty slice is NaN.\<close>

definition np_mean :: "fl list \<Rightarrow> fl" where
  "np_mean xs = (if xs = [] then NaN else fl_div (foldl fl_add (Fin 0) xs) (Fin (real (length xs))))"

definition is_counter_causal :: "fl list \<Rightarrow> int \<Rightarrow> bool" where
  "is_counter_causal my_slopes changepoint =
     (let prev_changepoint = max 0 (changepoint - 1);
          next_changepoint = min (changepoint + 1) (int (length my_slopes) - 1);
          prev_slopes = np_mean (slice my_slopes prev_changepoint changepoint);
          next_slopes = np_mean (slice my_slopes changepoint next_changepoint)
      in fl_gt prev_slopes next_slopes)"

text \<open>The loop over the changepoints the detector returns for one feature.\<close>

fun nm_changepoints ::
  "bool \<Rightarrow> string \<Rightarrow> fl list \<Rightarrow> fl list \<Rightarrow> int list \<Rightarrow> (string \<times> fl) list
     \<Rightarrow> error + (string \<times> fl) list" where
  "nm_changepoints counter_causal_only predictor my_slopes sorted_x_nz [] results = Inr results"
| "nm_changepoints counter_causal_only predictor my_slopes sorted_x_nz (changepoint # rest) results =
     (if counter_causal_only \<and> \<not> is_counter_causal my_slopes changepoint then
        nm_changepoints counter_causal_only predictor my_slopes sorted_x_nz rest results
      else
        bind_e (getitem sorted_x_nz changepoint) (\<lambda>xv.
          nm_changepoints counter_causal_only predictor my_slopes sorted_x_nz rest
            (results @ [(predictor, xv)])))"

text \<open>\<open>slopes[:, j]\<close>.\<close>

fun np_column :: "fl list list \<Rightarrow> int \<Rightarrow> error + fl list" where
  "np_column [] j = Inr []"
| "np_column (row # rows) j =
     bind_e (getitem row j) (\<lambda>v. bind_e (np_column rows j) (\<lambda>vs. Inr (v # vs)))"

text \<open>The sign sequence of a feature: the slopes of magnitude above 1e-8, each divided
  by its magnitude, and the sorted x values at the same positions.\<close>

definition nonzero_idx :: "fl list \<Rightarrow> int list" where
  "nonzero_idx my_slopes = np_where (map (\<lambda>s. fl_gt (fl_abs s) (Fin (1 / 10 ^ 8))) my_slopes)"

definition sign_only :: "fl list \<Rightarrow> fl list" where
  "sign_only my_slopes = map (\<lambda>s. fl_div s (fl_abs s)) my_slopes"

text \<open>One turn of the loop over the features; \<open>det\<close> is
  \<open>BayesOffline("const", "gauss").find_changepoints\<close>.\<close>

definition nm_feature ::
  "(fl list \<Rightarrow> int list) \<Rightarrow> (fl list \<Rightarrow> fl \<Rightarrow> int list) \<Rightarrow> (string \<times> fl list) list
     \<Rightarrow> fl list list \<Rightarrow> fl \<Rightarrow> bool \<Rightarrow> nat \<times> string \<Rightarrow> (string \<times> fl) list
     \<Rightarrow> error + (string \<times> fl) list" where
  "nm_feature argsort det data_df slopes prob_threshold counter_causal_only jp results =
     (case jp of (j, predictor) \<Rightarrow>
        bind_e (df_col data_df predictor) (\<lambda>vals.
          let order = argsort vals in
          bind_e (np_column slopes (int j)) (\<lambda>col_j.
          bind_e (take_idx vals order) (\<lambda>sorted_x.
          bind_e (take_idx sorted_x (nonzero_idx col_j)) (\<lambda>sorted_x_nz.
          bind_e (take_idx col_j (nonzero_idx col_j)) (\<lambda>nz_slopes.
            let my_slopes = sign_only nz_slopes in
            if length my_slopes < 3 then Inr results
            else nm_changepoints counter_causal_only predictor my_slopes sorted_x_nz
                   (det my_slopes prob_threshold) results))))))"

fun nm_features ::
  "(fl list \<Rightarrow> int list) \<Rightarrow> (fl list \<Rightarrow> fl \<Rightarrow> int list) \<Rightarrow> (string \<times> fl list) list
     \<Rightarrow> fl list list \<Rightarrow> fl \<Rightarrow> bool \<Rightarrow> (nat \<times> string) list \<Rightarrow> (string \<times> fl) list
     \<Rightarrow> error + (string \<times> fl) list" where
  "nm_features argsort det data_df slopes prob_threshold counter_causal_only [] results =
     Inr results"
| "nm_features argsort det data_df slopes prob_threshold counter_causal_only (jp # rest) results =
     bind_e (nm_feature argsort det data_df slopes prob_threshold counter_causal_only jp results)
       (nm_features argsort det data_df slopes prob_threshold counter_causal_only rest)"

definition find_non_monotonicities_from_ebm ::
  "(fl \<Rightarrow> string) \<Rightarrow> (fl list \<Rightarrow> int list) \<Rightarrow> (fl list \<Rightarrow> fl \<Rightarrow> int list) \<Rightarrow> errstate
     \<Rightarrow> fl list list \<Rightarrow> (string \<times> fl list) list \<Rightarrow> fl \<Rightarrow> bool \<Rightarrow> (error + table) \<times> errstate" where
  "find_non_monotonicities_from_ebm fmt argsort det st embeddings data_df prob_threshold
     counter_causal_only =
     (case calculate_slopes argsort st embeddings data_df of
        (Inl e, st') \<Rightarrow> (Inl e, st')
      | (Inr slopes, st') \<Rightarrow>
          (bind_e (nm_features argsort det data_df slopes prob_threshold counter_causal_only
                     (enumerate 0 (map fst data_df)) [])
             (\<lambda>results.
                pd_DataFrame (map (\<lambda>(predictor, v). [predictor, fmt v]) results)
                  [''Feature'', ''Value'']), st'))"

subsection \<open>The specification's wording, and concrete inputs\<close>

text \<open>
  The score of a window as the specification words it: for every sample s of
  \<open>[prevCp, nextCp)\<close>, continuousValue = beginY + (x[s] - beginX) * contSlope,
  discontinuousValue = beginY if s <= cp else endY, and the contribution is
  continuousValue - discontinuousValue if y_true[s] == 0, else the opposite; the score
  is the sum of the contributions. (Read on windows whose indices are in range.)
\<close>

definition spec_contribution ::
  "fl list \<Rightarrow> fl list \<Rightarrow> fl list \<Rightarrow> int \<times> int \<times> int \<Rightarrow> int \<Rightarrow> fl" where
  "spec_contribution x y y_true window s =
     (case window of (prevCp, cp, nextCp) \<Rightarrow>
        let beginY = y ! nat prevCp; endY = y ! nat nextCp;
            beginX = x ! nat prevCp; endX = x ! nat nextCp;
            contSlope = fl_div (fl_sub endY beginY) (fl_sub endX beginX);
            continuousValue = fl_add beginY (fl_mul (fl_sub (x ! nat s) beginX) contSlope);
            discontinuousValue = (if s \<le> cp then beginY else endY)
        in if y_true ! nat s = Fin 0 then fl_sub continuousValue discontinuousValue
           else fl_sub discontinuousValue continuousValue)"

definition spec_window_score ::
  "fl list \<Rightarrow> fl list \<Rightarrow> fl list \<Rightarrow> int \<times> int \<times> int \<Rightarrow> fl" where
  "spec_window_score x y y_true window =
     (case window of (prevCp, cp, nextCp) \<Rightarrow>
        foldl fl_add (Fin 0) (map (spec_contribution x y y_true window) (py_range prevCp nextCp)))"

text \<open>numpy's default configuration, and the argsort of an array that is already in
  strictly ascending order.\<close>

definition default_errstate :: errstate where
  "default_errstate =
     \<lparr>divide_mode = Warn, over_mode = Warn, under_mode = Ignore, invalid_mode = Warn\<rparr>"

definition identity_order :: "fl list \<Rightarrow> int list" where
  "identity_order vals = map int [0..<length vals]"

text \<open>
  The rows of one feature as the specification words them: the candidate at position
  k >= 1 of the candidate list has the window (candidates[k-1], candidates[k], next),
  where next is candidates[k+1] if it exists; it yields the row
  (x at cp, n, exp(log_p_diff / n), log_p_diff) with n = nextCp - prevCp exactly when
  log_p_diff > 0 and n > min_samples. The fallback for a missing candidates[k+1] is
  the one of the source, \<open>len(slopes) - 1\<close>.
\<close>

definition spec_window :: "fl list \<Rightarrow> int list \<Rightarrow> nat \<Rightarrow> int \<times> int \<times> int" where
  "spec_window slopes cands k =
     (cands ! (k - 1), cands ! k,
      if k + 1 < length cands then cands ! (k + 1) else int (length slopes) - 1)"

definition spec_row ::
  "fl list \<Rightarrow> fl list \<Rightarrow> fl list \<Rightarrow> int \<Rightarrow> int \<times> int \<times> int \<Rightarrow> fl list list" where
  "spec_row x y y_true min_samples window =
     (case window of (prevCp, cp, nextCp) \<Rightarrow>
        let n = nextCp - prevCp in
        case evaluate_discontinuity x y y_true window of
          Inl e \<Rightarrow> []
        | Inr log_p_diff \<Rightarrow>
            if fl_gt log_p_diff (Fin 0) \<and> min_samples < n then
              [[x ! nat cp, Fin (of_int n), fl_exp (fl_div log_p_diff (Fin (of_int n))),
                log_p_diff]]
            else [])"

definition spec_rows ::
  "fl list \<Rightarrow> fl list \<Rightarrow> fl list \<Rightarrow> int \<Rightarrow> fl list \<Rightarrow> fl list list" where
  "spec_rows x y y_true min_samples slopes =
     concat (map (\<lambda>k. spec_row x y y_true min_samples (spec_window slopes (candidates slopes) k))
               [1..<length (candidates slopes)])"

text \<open>
  The counter-causal test as the specification words it, on a non-negative index c:
  meanPrev = mean(signs[max(0, c-1) : c]), meanNext = mean(signs[c : min(c+1, len-1)]),
  keep when meanPrev > meanNext. A segment signs[a : b] holds the entries at the
  positions a <= k < b that exist.
\<close>

definition spec_segment :: "'a list \<Rightarrow> nat \<Rightarrow> nat \<Rightarrow> 'a list" where
  "spec_segment xs a b = map (\<lambda>k. xs ! k) [a..<min b (length xs)]"

definition spec_counter_causal :: "fl list \<Rightarrow> nat \<Rightarrow> bool" where
  "spec_counter_causal signs c =
     (let meanPrev = np_mean (spec_segment signs (max 0 (c - 1)) c);
          meanNext = np_mean (spec_segment signs c (min (c + 1) (length signs - 1)))
      in fl_gt meanPrev meanNext)"

text \<open>The sign sequence as the specification words it: the slopes with magnitude
  strictly greater than 1e-8, each reduced to its sign.\<close>

definition spec_signs :: "fl list \<Rightarrow> fl list" where
  "spec_signs slopes =
     map (\<lambda>s. fl_div s (fl_abs s)) (filter (\<lambda>s. fl_gt (fl_abs s) (Fin (1 / 10 ^ 8))) slopes)"

text \<open>
  A formatting of floats that agrees with the text numpy gives a whole number of
  magnitude below 10^16: its decimal digits followed by \<open>.0\<close>. It serves as an
  instance of \<open>fmt\<close> on such values only.
\<close>

function decimal :: "nat \<Rightarrow> string" where
  "decimal n = (if n < 10 then [''0123456789'' ! n]
                else decimal (n div 10) @ [''0123456789'' ! (n mod 10)])"
  by pat_completeness auto
termination
  by (relation "measure id") auto

declare decimal.simps [simp del]

definition fmt_whole :: "fl \<Rightarrow> string" where
  "fmt_whole v =
     (case v of
        Fin r \<Rightarrow> (if r < 0 then ''-'' else []) @ decimal (nat \<lfloor>\<bar>r\<bar>\<rfloor>) @ ''.0''
      | PInf \<Rightarrow> ''inf''
      | NInf \<Rightarrow> ''-inf''
      | NaN \<Rightarrow> ''nan'')"

section \<open>Properties\<close>

subsection \<open>calc_slopes\<close>

lemma calc_slopes_value:
  assumes "length x_arr = length y_arr"
  shows "fst (calc_slopes st x_arr y_arr) =
           Inr (mask_nonfinite (map2 fl_div (map2 fl_sub (drop 1 y_arr) (butlast y_arr))
                                            (map2 fl_sub (drop 1 x_arr) (butlast x_arr))))"
  using assms by (simp add: calc_slopes_def np_binop_def Let_def)

lemma calc_slopes_state:
  "snd (calc_slopes st x_arr y_arr) =
     (case fst (calc_slopes st x_arr y_arr) of
        Inl e \<Rightarrow> st\<lparr>invalid_mode := Ignore\<rparr>
      | Inr s \<Rightarrow> st\<lparr>invalid_mode := Warn\<rparr>)"
  by (simp add: calc_slopes_def seterr_invalid_def Let_def split: sum.splits)

lemma calc_slopes_length:
  assumes "length x_arr = length y_arr" and "fst (calc_slopes st x_arr y_arr) = Inr slopes"
  shows "length slopes = length x_arr - 1"
proof -
  have "slopes = mask_nonfinite (map2 fl_div (map2 fl_sub (drop 1 y_arr) (butlast y_arr))
                                             (map2 fl_sub (drop 1 x_arr) (butlast x_arr)))"
    using assms calc_slopes_value [OF assms(1), of st] by simp
  then show ?thesis using assms(1) by (simp add: mask_nonfinite_def)
qed


lemmas eval_defs0 =
  calc_slopes_def np_binop_def mask_nonfinite_def seterr_invalid_def fl_sub_def
  getitem_def bind_e_def py_range_def evaluate_discontinuity_def
  evaluate_discontinuity_sample_def candidates_def np_where_def
  next_changepoint_lookup_def disc_step_def find_discontinuities_in_sorted_def
  enumerate_eq_zip default_errstate_def

lemmas eval_defs = eval_defs0 upt_rec


lemma calc_slopes_restores_iff:
  assumes "fst (calc_slopes st x_arr y_arr) = Inr slopes"
  shows "snd (calc_slopes st x_arr y_arr) = st \<longleftrightarrow> invalid_mode st = Warn"
proof -
  have "snd (calc_slopes st x_arr y_arr) = st\<lparr>invalid_mode := Warn\<rparr>"
    using assms by (simp add: calc_slopes_state)
  moreover have "st\<lparr>invalid_mode := Warn\<rparr> = st \<longleftrightarrow> invalid_mode st = Warn"
    by (cases st) auto
  ultimately show ?thesis by simp
qed

text \<open>
  C9. The configuration after \<open>calc_slopes\<close> returns is the configuration before the
  call. The source sets the \<open>invalid\<close> mode to \<open>ignore\<close> and then to \<open>warn\<close>,
  whatever it was: from a configuration whose \<open>invalid\<close> mode is \<open>ignore\<close>, the call
  returns and leaves it at \<open>warn\<close>.
\<close>

theorem calc_slopes_leaves_invalid_warn:
  "fst (calc_slopes \<lparr>divide_mode = Ignore, over_mode = Ignore, under_mode = Ignore,
                     invalid_mode = Ignore\<rparr> [Fin 0, Fin 1] [Fin 0, Fin 1]) = Inr [Fin 1]
   \<and> snd (calc_slopes \<lparr>divide_mode = Ignore, over_mode = Ignore, under_mode = Ignore,
                       invalid_mode = Ignore\<rparr> [Fin 0, Fin 1] [Fin 0, Fin 1])
       = \<lparr>divide_mode = Ignore, over_mode = Ignore, under_mode = Ignore, invalid_mode = Warn\<rparr>"
  by (simp add: eval_defs)

subsection \<open>The score of a window\<close>

text \<open>What one call of the loop computes from the arguments in the places the
  source puts them.\<close>

lemma sample_call:
  "evaluate_discontinuity_sample x_val (begin_y_val, end_y_val) (PyBool (sample \<le> changepoint))
       (PyFloat cont_slope) (PyFloat yt)
     = (if sample \<le> changepoint
        then fl_sub (if cont_slope \<noteq> Fin 0 then begin_y_val else end_y_val)
                    (fl_add begin_y_val (fl_mul x_val yt))
        else fl_sub (fl_add begin_y_val (fl_mul x_val yt))
                    (if cont_slope \<noteq> Fin 0 then begin_y_val else end_y_val))"
  by (simp add: evaluate_discontinuity_sample_def)

text \<open>
  C1. Each sample of a window contributes continuousValue - discontinuousValue when
  y_true[s] == 0 and the opposite otherwise, and the score is the sum. The call in
  \<open>evaluate_discontinuity\<close> passes \<open>sample <= changepoint\<close>, \<open>cont_slope\<close> and
  \<open>y_true[sample]\<close> in the places of \<open>y_true\<close>, \<open>idx_before_mid\<close> and \<open>slope\<close>:
  on x = [0, 1, 2, 3], y = [0, 1, 4, 4], y_true = [1, 1, 0, 0] and the window
  [0, 1, 2] the source returns -1, and the score as the specification words it is -2.
\<close>

theorem evaluate_discontinuity_differs_from_spec:
  "evaluate_discontinuity [Fin 0, Fin 1, Fin 2, Fin 3] [Fin 0, Fin 1, Fin 4, Fin 4]
       [Fin 1, Fin 1, Fin 0, Fin 0] (0, 1, 2) = Inr (Fin (- 1))
   \<and> spec_window_score [Fin 0, Fin 1, Fin 2, Fin 3] [Fin 0, Fin 1, Fin 4, Fin 4]
       [Fin 1, Fin 1, Fin 0, Fin 0] (0, 1, 2) = Fin (- 2)"
  by (simp add: eval_defs spec_window_score_def spec_contribution_def)

subsection \<open>The assertion of evaluate_discontinuity\<close>

lemma getitem_error: "getitem arr i = Inl e \<Longrightarrow> e = IndexError"
  by (simp add: getitem_def split: if_splits)

lemma eval_samples_error:
  "eval_samples sorted_x y_true bx yv cp cs samples acc = Inl e \<Longrightarrow> e = IndexError"
proof (induction samples arbitrary: acc)
  case Nil
  then show ?case by simp
next
  case (Cons s samples)
  then show ?case
    by (auto simp: bind_e_def split: sum.splits dest: getitem_error)
qed

lemma evaluate_discontinuity_error:
  assumes "evaluate_discontinuity sorted_x sorted_y y_true (p, c, n) = Inl e" and "0 < c"
  shows "e = IndexError"
  using assms
  by (auto simp: evaluate_discontinuity_def bind_e_def split: sum.splits
           dest: getitem_error eval_samples_error)

lemma next_changepoint_lookup_total:
  "\<exists>c. next_changepoint_lookup slopes changepoints i = Inr c"
proof (cases "getitem changepoints (int i + 1)")
  case (Inl e)
  then have "e = IndexError" by (rule getitem_error)
  with Inl show ?thesis by (simp add: next_changepoint_lookup_def)
next
  case (Inr c)
  then show ?thesis by (simp add: next_changepoint_lookup_def)
qed

lemma disc_step_error:
  assumes "disc_step sorted_x sorted_y y_true ms slopes cps (i, c) acc = Inl e"
    and "i = 0 \<or> 0 < c"
  shows "e = IndexError"
proof (cases "i = 0")
  case True
  with assms(1) show ?thesis by (simp add: disc_step_def)
next
  case False
  with assms(2) have c: "0 < c" by simp
  obtain nx where nx: "next_changepoint_lookup slopes cps i = Inr nx"
    using next_changepoint_lookup_total by blast
  show ?thesis
  proof (cases "getitem cps (int i - 1)")
    case (Inl e')
    with assms(1) False show ?thesis
      by (auto simp: disc_step_def bind_e_def dest: getitem_error)
  next
    case (Inr pv)
    show ?thesis
    proof (cases "evaluate_discontinuity sorted_x sorted_y y_true (pv, c, nx)")
      case (Inl e')
      then have "e' = IndexError" using c by (rule evaluate_discontinuity_error)
      with assms(1) False Inr nx Inl show ?thesis
        by (simp add: disc_step_def bind_e_def)
    next
      case lp: (Inr lp)
      with assms(1) False Inr nx show ?thesis
        by (auto simp: disc_step_def bind_e_def Let_def split: if_splits sum.splits
                 dest: getitem_error)
    qed
  qed
qed

lemma disc_loop_error:
  assumes "disc_loop sorted_x sorted_y y_true ms slopes cps ics acc = Inl e"
    and "\<And>i c. (i, c) \<in> set ics \<Longrightarrow> i = 0 \<or> 0 < c"
  shows "e = IndexError"
  using assms
proof (induction ics arbitrary: acc)
  case Nil
  then show ?case by simp
next
  case (Cons ic ics)
  obtain i c where ic: "ic = (i, c)" by (cases ic)
  have first: "i = 0 \<or> 0 < c" using Cons.prems(2) [of i c] ic by simp
  show ?case
  proof (cases "disc_step sorted_x sorted_y y_true ms slopes cps ic acc")
    case (Inl e')
    with Cons.prems(1) have "e' = e" by (simp add: bind_e_def)
    with Inl ic first show ?thesis by (auto dest: disc_step_error)
  next
    case (Inr acc')
    with Cons.prems(1)
    have "disc_loop sorted_x sorted_y y_true ms slopes cps ics acc' = Inl e"
      by (simp add: bind_e_def)
    then show ?thesis using Cons.IH Cons.prems(2) by auto
  qed
qed

text \<open>The candidates are strictly increasing natural numbers, so the candidate at
  position i is at least i.\<close>

lemma strictly_increasing_nth_ge:
  assumes "sorted_wrt (<) (ns :: nat list)" and "i < length ns"
  shows "i \<le> ns ! i"
  using assms(2)
proof (induction i)
  case 0
  then show ?case by simp
next
  case (Suc i)
  then have "ns ! i < ns ! Suc i"
    using assms(1) by (simp add: sorted_wrt_nth_less)
  with Suc show ?case by simp
qed

lemma candidates_eq:
  "candidates slopes =
     map int (filter (\<lambda>i. fl_gt (fl_abs (slopes ! i)) (Fin 0)) [0..<length slopes])"
proof -
  have "filter (\<lambda>i. map (\<lambda>s. fl_gt (fl_abs s) (Fin 0)) slopes ! i) [0..<length slopes]
        = filter (\<lambda>i. fl_gt (fl_abs (slopes ! i)) (Fin 0)) [0..<length slopes]"
    by (rule filter_cong) auto
  then show ?thesis by (simp add: candidates_def np_where_def)
qed

lemma candidates_nth_ge:
  assumes "i < length (candidates slopes)"
  shows "int i \<le> candidates slopes ! i"
proof -
  let ?ns = "filter (\<lambda>i. fl_gt (fl_abs (slopes ! i)) (Fin 0)) [0..<length slopes]"
  have "sorted_wrt (<) ?ns" by (rule sorted_wrt_filter) simp
  moreover have "i < length ?ns" using assms by (simp add: candidates_eq)
  ultimately have "i \<le> ?ns ! i" by (rule strictly_increasing_nth_ge)
  then show ?thesis using \<open>i < length ?ns\<close> by (simp add: candidates_eq)
qed

lemma enumerate_candidates_positive:
  assumes "(i, c) \<in> set (enumerate 0 (candidates slopes))"
  shows "i = 0 \<or> 0 < c"
proof -
  from assms have "i < length (candidates slopes)" and "c = candidates slopes ! i"
    by (auto simp: in_set_enumerate_eq)
  then show ?thesis using candidates_nth_ge [of i slopes] by auto
qed

lemma calc_slopes_error: "fst (calc_slopes st x_arr y_arr) = Inl e \<Longrightarrow> e = ValueError"
  by (auto simp: calc_slopes_def np_binop_def Let_def split: if_splits)

text \<open>
  C10. The assertion \<open>changepoint > 0\<close> of \<open>evaluate_discontinuity\<close> never fails
  when \<open>find_discontinuities_in_sorted\<close> calls it: whatever the arrays, the outcome of
  \<open>find_discontinuities_in_sorted\<close> is not an AssertionError.
\<close>

theorem find_discontinuities_in_sorted_no_assertion_error:
  "fst (find_discontinuities_in_sorted st sorted_x sorted_y y_true min_samples)
     \<noteq> Inl AssertionError"
proof (cases "calc_slopes st sorted_x sorted_y")
  case (Pair r st')
  show ?thesis
  proof (cases r)
    case (Inl e)
    with Pair have "e = ValueError" using calc_slopes_error [of st sorted_x sorted_y e] by simp
    with Pair Inl show ?thesis by (simp add: find_discontinuities_in_sorted_def)
  next
    case (Inr slopes)
    have "disc_loop sorted_x sorted_y y_true min_samples slopes (candidates slopes)
            (enumerate 0 (candidates slopes)) [] \<noteq> Inl AssertionError"
      using disc_loop_error [where e = AssertionError] enumerate_candidates_positive
      by blast
    with Pair Inr show ?thesis by (simp add: find_discontinuities_in_sorted_def Let_def)
  qed
qed

subsection \<open>The window of the last candidate\<close>

lemma length_candidates_le: "length (candidates slopes) \<le> length slopes"
proof -
  have "length (filter (\<lambda>i. fl_gt (fl_abs (slopes ! i)) (Fin 0)) [0..<length slopes])
          \<le> length [0..<length slopes]"
    by (rule length_filter_le)
  then show ?thesis by (simp add: candidates_eq)
qed

lemma next_changepoint_lookup_last:
  assumes "length changepoints \<le> i + 1"
  shows "next_changepoint_lookup slopes changepoints i = Inr (int (length slopes) - 1)"
  using assms by (simp add: next_changepoint_lookup_def getitem_def)

lemma next_changepoint_lookup_inner:
  assumes "i + 1 < length changepoints"
  shows "next_changepoint_lookup slopes changepoints i = Inr (changepoints ! (i + 1))"
  using assms by (simp add: next_changepoint_lookup_def getitem_def nat_add_distrib)

text \<open>
  C6, as the source has it. For the last candidate of a feature (position i >= 1, no
  candidates[i+1]) the lookup of the next changepoint does not fail: it yields
  \<open>len(slopes) - 1\<close>, the last valid index of the slope sequence, which is the sample
  count minus 2 (the index before the last sample index).
\<close>

theorem next_changepoint_fallback:
  assumes "length sorted_x = length sorted_y"
    and "fst (calc_slopes st sorted_x sorted_y) = Inr slopes"
    and "0 < i" and "Suc i = length (candidates slopes)"
  shows "next_changepoint_lookup slopes (candidates slopes) i = Inr (int (length slopes) - 1)
         \<and> int (length slopes) - 1 = int (length sorted_x) - 2"
proof -
  have "length slopes = length sorted_x - 1"
    using assms(1,2) by (rule calc_slopes_length)
  moreover have "2 \<le> length slopes"
    using assms(3,4) length_candidates_le [of slopes] by simp
  ultimately have "int (length slopes) - 1 = int (length sorted_x) - 2" by simp
  moreover have "next_changepoint_lookup slopes (candidates slopes) i
                   = Inr (int (length slopes) - 1)"
    using assms(4) by (intro next_changepoint_lookup_last) simp
  ultimately show ?thesis by simp
qed

theorem next_changepoint_fallback_witness:
  "length [Fin 0, Fin 1, Fin 2, Fin 3] = length [Fin 0, Fin 1, Fin 2, Fin 2]
   \<and> fst (calc_slopes default_errstate [Fin 0, Fin 1, Fin 2, Fin 3] [Fin 0, Fin 1, Fin 2, Fin 2])
       = Inr [Fin 1, Fin 1, Fin 0]
   \<and> Suc 1 = length (candidates [Fin 1, Fin 1, Fin 0])
   \<and> next_changepoint_lookup [Fin 1, Fin 1, Fin 0] (candidates [Fin 1, Fin 1, Fin 0]) 1 = Inr 2"
proof -
  let ?x = "[Fin 0, Fin 1, Fin 2, Fin 3]" and ?y = "[Fin 0, Fin 1, Fin 2, Fin 2]"
  let ?s = "[Fin 1, Fin 1, Fin 0]"
  have h1: "length ?x = length ?y" by simp
  have h2: "fst (calc_slopes default_errstate ?x ?y) = Inr ?s" by (simp add: eval_defs)
  have h3: "0 < (1::nat)" by simp
  have h4: "Suc 1 = length (candidates ?s)" by (simp add: eval_defs)
  from next_changepoint_fallback [OF h1 h2 h3 h4]
  have "next_changepoint_lookup ?s (candidates ?s) 1 = Inr 2" by simp
  with h1 h2 h4 show ?thesis by simp
qed

text \<open>The claim as the specification states it names the last valid sample index
  (sample count minus 1) as the fallback. On x = [0, 1, 2, 3], y = [0, 1, 2, 2] the
  candidates are [0, 1]; for the last one the lookup yields 2, and the last sample
  index is 3.\<close>

theorem next_changepoint_fallback_is_not_last_sample:
  "fst (calc_slopes default_errstate [Fin 0, Fin 1, Fin 2, Fin 3] [Fin 0, Fin 1, Fin 2, Fin 2])
     = Inr [Fin 1, Fin 1, Fin 0]
   \<and> candidates [Fin 1, Fin 1, Fin 0] = [0, 1]
   \<and> next_changepoint_lookup [Fin 1, Fin 1, Fin 0] [0, 1] 1 = Inr 2
   \<and> next_changepoint_lookup [Fin 1, Fin 1, Fin 0] [0, 1] 1
       \<noteq> Inr (int (length [Fin 0, Fin 1, Fin 2, Fin 3]) - 1)"
  by (simp add: eval_defs)

subsection \<open>The rows of one feature\<close>

lemma getitem_nonneg:
  assumes "0 \<le> i" and "getitem arr i = Inr v"
  shows "v = arr ! nat i"
  using assms by (simp add: getitem_def split: if_splits)

lemma getitem_nth:
  assumes "k < length arr"
  shows "getitem arr (int k) = Inr (arr ! k)"
  using assms by (simp add: getitem_def)

lemma next_changepoint_lookup_window:
  "next_changepoint_lookup slopes cands k = Inr (snd (snd (spec_window slopes cands k)))"
proof (cases "k + 1 < length cands")
  case True
  then show ?thesis by (simp add: next_changepoint_lookup_inner spec_window_def)
next
  case False
  then have "length cands \<le> k + 1" by simp
  then show ?thesis using False by (simp add: next_changepoint_lookup_last spec_window_def)
qed

lemma disc_step_unfold:
  assumes "k \<noteq> 0" and "getitem cands (int k - 1) = Inr p"
    and "next_changepoint_lookup slopes cands k = Inr n"
    and "evaluate_discontinuity x y yt (p, c, n) = Inr lp"
  shows "disc_step x y yt ms slopes cands (k, c) acc =
           (if fl_gt lp (Fin 0) \<and> ms < n - p then
              bind_e (getitem x c) (\<lambda>xv.
                Inr (acc @ [[xv, Fin (of_int (n - p)),
                             fl_exp (fl_div lp (Fin (of_int (n - p)))), lp]]))
            else Inr acc)"
  using assms by (simp add: disc_step_def bind_e_def Let_def)

lemma disc_step_eval_error:
  assumes "k \<noteq> 0" and "getitem cands (int k - 1) = Inr p"
    and "next_changepoint_lookup slopes cands k = Inr n"
    and "evaluate_discontinuity x y yt (p, c, n) = Inl e"
  shows "disc_step x y yt ms slopes cands (k, c) acc = Inl e"
  using assms by (simp add: disc_step_def bind_e_def Let_def)

lemma spec_row_unfold:
  assumes "evaluate_discontinuity x y yt (p, c, n) = Inr lp"
  shows "spec_row x y yt ms (p, c, n) =
           (if fl_gt lp (Fin 0) \<and> ms < n - p then
              [[x ! nat c, Fin (of_int (n - p)), fl_exp (fl_div lp (Fin (of_int (n - p)))), lp]]
            else [])"
  using assms by (simp add: spec_row_def Let_def)

lemma disc_step_spec:
  assumes step: "disc_step x y yt ms slopes cands (k, cands ! k) acc = Inr acc'"
    and k: "k < length cands" and nonneg: "\<And>c. c \<in> set cands \<Longrightarrow> 0 \<le> c"
  shows "acc' = acc @ (if k = 0 then [] else spec_row x y yt ms (spec_window slopes cands k))"
proof (cases "k = 0")
  case True
  with step show ?thesis by (simp add: disc_step_def)
next
  case False
  define p where "p = cands ! (k - 1)"
  define n where "n = snd (snd (spec_window slopes cands k))"
  have w: "spec_window slopes cands k = (p, cands ! k, n)"
    by (simp add: spec_window_def p_def n_def)
  have prev: "getitem cands (int k - 1) = Inr p"
  proof -
    have "int k - 1 = int (k - 1)" using False by simp
    moreover have "k - 1 < length cands" using k by simp
    ultimately show ?thesis unfolding p_def by (simp only: getitem_nth)
  qed
  have nxt: "next_changepoint_lookup slopes cands k = Inr n"
    unfolding n_def by (rule next_changepoint_lookup_window)
  have c0: "0 \<le> cands ! k" using k nonneg by simp
  show ?thesis
  proof (cases "evaluate_discontinuity x y yt (p, cands ! k, n)")
    case (Inl e)
    from disc_step_eval_error [OF False prev nxt Inl] step show ?thesis by simp
  next
    case (Inr lp)
    note unf = disc_step_unfold [OF False prev nxt Inr, of ms acc]
    note spec = spec_row_unfold [OF Inr, of ms]
    show ?thesis
    proof (cases "fl_gt lp (Fin 0) \<and> ms < n - p")
      case keep: True
      show ?thesis
      proof (cases "getitem x (cands ! k)")
        case (Inl e)
        with step unf keep show ?thesis by (simp add: bind_e_def)
      next
        case xv: (Inr xv)
        have "xv = x ! nat (cands ! k)" using c0 xv by (rule getitem_nonneg)
        moreover have "acc' = acc @ [[xv, Fin (of_int (n - p)),
                             fl_exp (fl_div lp (Fin (of_int (n - p)))), lp]]"
          using step unf keep xv by (simp add: bind_e_def)
        ultimately show ?thesis using False w spec keep by simp
      qed
    next
      case drop: False
      have "acc' = acc" using step unf drop by simp
      then show ?thesis using False w spec drop by simp
    qed
  qed
qed

lemma disc_loop_spec:
  assumes "disc_loop x y yt ms slopes cands (map (\<lambda>k. (k, cands ! k)) ks) acc = Inr rows"
    and "\<And>k. k \<in> set ks \<Longrightarrow> k < length cands"
    and "\<And>c. c \<in> set cands \<Longrightarrow> 0 \<le> c"
  shows "rows = acc @ concat (map (\<lambda>k. if k = 0 then []
                                        else spec_row x y yt ms (spec_window slopes cands k)) ks)"
  using assms(1,2)
proof (induction ks arbitrary: acc)
  case Nil
  then show ?case by simp
next
  case (Cons k ks)
  from Cons.prems(1) obtain acc' where
    step: "disc_step x y yt ms slopes cands (k, cands ! k) acc = Inr acc'" and
    rest: "disc_loop x y yt ms slopes cands (map (\<lambda>k. (k, cands ! k)) ks) acc' = Inr rows"
    by (auto simp: bind_e_def split: sum.splits)
  have "k < length cands" using Cons.prems(2) by simp
  with step have "acc' = acc @ (if k = 0 then []
                                 else spec_row x y yt ms (spec_window slopes cands k))"
    using assms(3) by (intro disc_step_spec) auto
  moreover have "rows = acc' @ concat (map (\<lambda>k. if k = 0 then []
                     else spec_row x y yt ms (spec_window slopes cands k)) ks)"
    using rest Cons.prems(2) by (intro Cons.IH) auto
  ultimately show ?case by simp
qed

lemma enumerate_as_map: "enumerate 0 xs = map (\<lambda>k. (k, xs ! k)) [0..<length xs]"
  by (rule nth_equalityI) (simp_all add: nth_enumerate_eq)

lemma concat_skip_first:
  "concat (map (\<lambda>k. if k = 0 then [] else f k) [0..<n]) = concat (map f [1..<n])"
proof (cases n)
  case 0
  then show ?thesis by simp
next
  case (Suc m)
  have "map (\<lambda>k. if k = 0 then [] else f k) [Suc 0..<n] = map f [Suc 0..<n]"
    by (rule map_cong) auto
  then have "concat (map (\<lambda>k. if k = 0 then [] else f k) [Suc 0..<n])
             = concat (map f [Suc 0..<n])"
    by (rule arg_cong)
  moreover have "[0..<n] = 0 # [Suc 0..<n]" using Suc by (simp add: upt_conv_Cons)
  ultimately show ?thesis by simp
qed

lemma candidates_nonneg: "c \<in> set (candidates slopes) \<Longrightarrow> 0 \<le> c"
  by (auto simp: candidates_eq)

lemma getitem_in_range:
  assumes "0 \<le> i" and "i < int (length arr)"
  shows "getitem arr i = Inr (arr ! nat i)"
  using assms by (simp add: getitem_def)

lemma eval_samples_returns:
  assumes "\<And>s. s \<in> set samples \<Longrightarrow> 0 \<le> s \<and> s < int (length x) \<and> s < int (length yt)"
  shows "\<exists>v. eval_samples x yt bx yv cp cs samples acc = Inr v"
  using assms
proof (induction samples arbitrary: acc)
  case Nil
  then show ?case by simp
next
  case (Cons s samples)
  have s: "0 \<le> s" "s < int (length x)" "s < int (length yt)" using Cons.prems by simp_all
  have "getitem x s = Inr (x ! nat s)" "getitem yt s = Inr (yt ! nat s)"
    using s by (simp_all add: getitem_in_range)
  then show ?case using Cons.IH Cons.prems by (simp add: bind_e_def)
qed

lemma evaluate_discontinuity_returns:
  assumes "0 < c" and "0 \<le> p" and "p < int (length x)" and "0 \<le> n" and "n < int (length x)"
    and "length x = length y" and "length x \<le> length yt"
  shows "\<exists>v. evaluate_discontinuity x y yt (p, c, n) = Inr v"
proof -
  have "getitem y p = Inr (y ! nat p)" "getitem y n = Inr (y ! nat n)"
    "getitem x p = Inr (x ! nat p)" "getitem x n = Inr (x ! nat n)"
    using assms by (simp_all add: getitem_in_range)
  moreover have "\<exists>v. eval_samples x yt bx yv c cs (py_range p n) (Fin 0) = Inr v" for bx yv cs
  proof (rule eval_samples_returns)
    fix s
    assume "s \<in> set (py_range p n)"
    then have "p \<le> s" "s < n" by (auto simp: py_range_def)
    then show "0 \<le> s \<and> s < int (length x) \<and> s < int (length yt)" using assms by simp
  qed
  ultimately show ?thesis using assms(1) by (simp add: evaluate_discontinuity_def bind_e_def)
qed

lemma candidates_in_range:
  assumes "c \<in> set (candidates slopes)"
  shows "0 \<le> c \<and> c < int (length slopes)"
  using assms by (auto simp: candidates_eq)

lemma disc_step_returns:
  assumes k: "k < length (candidates slopes)"
    and len: "length slopes < length x" "length x = length y" "length x \<le> length yt"
  shows "\<exists>acc'. disc_step x y yt ms slopes (candidates slopes)
                  (k, candidates slopes ! k) acc = Inr acc'"
proof (cases "k = 0")
  case True
  then show ?thesis by (simp add: disc_step_def)
next
  case False
  let ?cands = "candidates slopes"
  define p where "p = ?cands ! (k - 1)"
  define n where "n = snd (snd (spec_window slopes ?cands k))"
  have rng: "0 \<le> ?cands ! j \<and> ?cands ! j < int (length slopes)" if "j < length ?cands" for j
    using that candidates_in_range [of "?cands ! j" slopes] by simp
  have km: "k - 1 < length ?cands" using k by simp
  have p: "0 \<le> p" "p < int (length x)"
    using rng [OF km] len(1) by (auto simp: p_def)
  have c: "0 < ?cands ! k" "?cands ! k < int (length x)"
    using candidates_nth_ge [OF k] False rng [OF k] len(1) by auto
  have n: "0 \<le> n \<and> n < int (length x)"
  proof (cases "k + 1 < length ?cands")
    case True
    then show ?thesis using rng [OF True] len(1) by (auto simp: n_def spec_window_def)
  next
    case False
    moreover have "0 < length slopes" using rng [OF k] by linarith
    ultimately show ?thesis using len(1) by (auto simp: n_def spec_window_def)
  qed
  then have n: "0 \<le> n" "n < int (length x)" by simp_all
  have prev: "getitem ?cands (int k - 1) = Inr p"
  proof -
    have "int k - 1 = int (k - 1)" using False by simp
    moreover have "k - 1 < length ?cands" using k by simp
    ultimately show ?thesis unfolding p_def by (simp only: getitem_nth)
  qed
  have nxt: "next_changepoint_lookup slopes ?cands k = Inr n"
    unfolding n_def by (rule next_changepoint_lookup_window)
  obtain lp where lp: "evaluate_discontinuity x y yt (p, ?cands ! k, n) = Inr lp"
    using evaluate_discontinuity_returns [OF c(1) p n len(2,3)] by blast
  have "getitem x (?cands ! k) = Inr (x ! nat (?cands ! k))"
    using c by (simp add: getitem_in_range)
  then show ?thesis
    using disc_step_unfold [OF False prev nxt lp, of ms acc] by (simp add: bind_e_def)
qed

lemma disc_loop_returns:
  assumes "\<And>k. k \<in> set ks \<Longrightarrow> k < length (candidates slopes)"
    and "length slopes < length x" "length x = length y" "length x \<le> length yt"
  shows "\<exists>rows. disc_loop x y yt ms slopes (candidates slopes)
                  (map (\<lambda>k. (k, candidates slopes ! k)) ks) acc = Inr rows"
  using assms(1)
proof (induction ks arbitrary: acc)
  case Nil
  then show ?case by simp
next
  case (Cons k ks)
  have "k < length (candidates slopes)" using Cons.prems by simp
  then obtain acc' where
    "disc_step x y yt ms slopes (candidates slopes) (k, candidates slopes ! k) acc = Inr acc'"
    using disc_step_returns [OF _ assms(2-4)] by blast
  then show ?case using Cons.IH Cons.prems by (simp add: bind_e_def)
qed

lemma find_discontinuities_in_sorted_returns:
  assumes "length sorted_x = length sorted_y" and "length sorted_x \<le> length y_true"
  shows "\<exists>rows. fst (find_discontinuities_in_sorted st sorted_x sorted_y y_true min_samples)
                  = Inr rows"
proof -
  obtain slopes st' where cs: "calc_slopes st sorted_x sorted_y = (Inr slopes, st')"
    using calc_slopes_value [OF assms(1), of st]
    by (cases "calc_slopes st sorted_x sorted_y") auto
  then have "length slopes = length sorted_x - 1"
    using calc_slopes_length [OF assms(1), of st slopes] by simp
  show ?thesis
  proof (cases "candidates slopes = []")
    case True
    with cs show ?thesis by (simp add: find_discontinuities_in_sorted_def)
  next
    case False
    then have "0 < length slopes" using length_candidates_le [of slopes] by (cases slopes) auto
    with \<open>length slopes = length sorted_x - 1\<close> have "length slopes < length sorted_x" by simp
    then have "\<exists>rows. disc_loop sorted_x sorted_y y_true min_samples slopes (candidates slopes)
                (map (\<lambda>k. (k, candidates slopes ! k)) [0..<length (candidates slopes)]) [] = Inr rows"
      using assms by (intro disc_loop_returns) simp_all
    with cs show ?thesis
      by (simp add: find_discontinuities_in_sorted_def Let_def enumerate_as_map)
  qed
qed

text \<open>
  C5. A candidate with window [prevCp, nextCp] yields an output row if and only if
  its score log_p_diff is positive and n = nextCp - prevCp exceeds min_samples, and
  the row is (x at cp, n, exp(log_p_diff / n), log_p_diff): whenever
  \<open>find_discontinuities_in_sorted\<close> returns, its rows are those of the candidates at
  positions 1, 2, ... in order, one row for each candidate that meets both conditions
  and none for the others; and it does return when x and y are equally long and
  y_true is at least as long.
\<close>

theorem find_discontinuities_in_sorted_rows:
  assumes "fst (calc_slopes st sorted_x sorted_y) = Inr slopes"
  shows "(\<forall>rows. fst (find_discontinuities_in_sorted st sorted_x sorted_y y_true min_samples)
                   = Inr rows
                 \<longrightarrow> rows = spec_rows sorted_x sorted_y y_true min_samples slopes)
         \<and> (length sorted_x = length sorted_y \<and> length sorted_x \<le> length y_true
              \<longrightarrow> fst (find_discontinuities_in_sorted st sorted_x sorted_y y_true min_samples)
                    = Inr (spec_rows sorted_x sorted_y y_true min_samples slopes))"
proof -
  obtain st' where cs: "calc_slopes st sorted_x sorted_y = (Inr slopes, st')"
    using assms by (cases "calc_slopes st sorted_x sorted_y") simp
  let ?cands = "candidates slopes"
  have a: "rows = spec_rows sorted_x sorted_y y_true min_samples slopes"
    if r: "fst (find_discontinuities_in_sorted st sorted_x sorted_y y_true min_samples) = Inr rows"
    for rows
  proof -
    have "disc_loop sorted_x sorted_y y_true min_samples slopes ?cands
            (map (\<lambda>k. (k, ?cands ! k)) [0..<length ?cands]) [] = Inr rows"
      using r cs by (simp add: find_discontinuities_in_sorted_def Let_def enumerate_as_map)
    then have "rows = [] @ concat (map (\<lambda>k. if k = 0 then []
                   else spec_row sorted_x sorted_y y_true min_samples
                          (spec_window slopes ?cands k)) [0..<length ?cands])"
      by (rule disc_loop_spec) (auto dest: candidates_nonneg)
    then show ?thesis by (simp add: concat_skip_first spec_rows_def del: upt_Suc)
  qed
  have b: "fst (find_discontinuities_in_sorted st sorted_x sorted_y y_true min_samples)
             = Inr (spec_rows sorted_x sorted_y y_true min_samples slopes)"
    if l1: "length sorted_x = length sorted_y" and l2: "length sorted_x \<le> length y_true"
  proof -
    obtain rows where
      "fst (find_discontinuities_in_sorted st sorted_x sorted_y y_true min_samples) = Inr rows"
      using find_discontinuities_in_sorted_returns [OF l1 l2] by blast
    then show ?thesis using a by simp
  qed
  show ?thesis using a b by blast
qed

theorem find_discontinuities_in_sorted_rows_witness:
  "fst (calc_slopes default_errstate
          (map Fin [0, 1, 2, 3, 4, 5, 6, 7, 8, 9, 10, 11])
          (map Fin [0, 1, 2, 2, 2, 2, 3, 3, 3, 3, 3, 3]))
     = Inr (map Fin [1, 1, 0, 0, 0, 1, 0, 0, 0, 0, 0])
   \<and> fst (find_discontinuities_in_sorted default_errstate
          (map Fin [0, 1, 2, 3, 4, 5, 6, 7, 8, 9, 10, 11])
          (map Fin [0, 1, 2, 2, 2, 2, 3, 3, 3, 3, 3, 3])
          (map Fin [0, 0, 1, 1, 1, 1, 1, 1, 1, 1, 1, 1]) 1)
     = Inr [[Fin 1, Fin 5, Fin (exp (9 / 5)), Fin 9], [Fin 5, Fin 9, Fin (exp (16 / 9)), Fin 16]]
   \<and> spec_rows (map Fin [0, 1, 2, 3, 4, 5, 6, 7, 8, 9, 10, 11])
          (map Fin [0, 1, 2, 2, 2, 2, 3, 3, 3, 3, 3, 3])
          (map Fin [0, 0, 1, 1, 1, 1, 1, 1, 1, 1, 1, 1]) 1
          (map Fin [1, 1, 0, 0, 0, 1, 0, 0, 0, 0, 0])
     = [[Fin 1, Fin 5, Fin (exp (9 / 5)), Fin 9], [Fin 5, Fin 9, Fin (exp (16 / 9)), Fin 16]]"
proof -
  let ?x = "map Fin [0, 1, 2, 3, 4, 5, 6, 7, 8, 9, 10, 11]"
  let ?y = "map Fin [0, 1, 2, 2, 2, 2, 3, 3, 3, 3, 3, 3]"
  let ?t = "map Fin [0, 0, 1, 1, 1, 1, 1, 1, 1, 1, 1, 1]"
  let ?s = "map Fin [1, 1, 0, 0, 0, 1, 0, 0, 0, 0, 0]"
  have h1: "fst (calc_slopes default_errstate ?x ?y) = Inr ?s"
    by (simp add: eval_defs)
  have h2: "fst (find_discontinuities_in_sorted default_errstate ?x ?y ?t 1)
      = Inr [[Fin 1, Fin 5, Fin (exp (9 / 5)), Fin 9], [Fin 5, Fin 9, Fin (exp (16 / 9)), Fin 16]]"
    by (simp add: eval_defs)
  have h3: "length ?x = length ?y \<and> length ?x \<le> length ?t" by simp
  from find_discontinuities_in_sorted_rows [OF h1, of ?t 1] h3
  have "fst (find_discontinuities_in_sorted default_errstate ?x ?y ?t 1)
          = Inr (spec_rows ?x ?y ?t 1 ?s)"
    by blast
  with h1 h2 show ?thesis by simp
qed

subsection \<open>The counter-causal filter\<close>

lemma slice_nonneg:
  assumes "0 \<le> lo" and "0 \<le> hi"
  shows "slice xs lo hi = spec_segment xs (nat lo) (nat hi)"
proof -
  let ?a = "nat lo" and ?b = "nat hi" and ?n = "length xs"
  have sl: "slice xs lo hi = take (min ?b ?n - min ?a ?n) (drop (min ?a ?n) xs)"
    using assms by (simp add: slice_def slice_bound_def Let_def)
  have "take (min ?b ?n - min ?a ?n) (drop (min ?a ?n) xs)
          = map (\<lambda>k. xs ! k) [?a..<min ?b ?n]"
  proof (rule nth_equalityI)
    show "length (take (min ?b ?n - min ?a ?n) (drop (min ?a ?n) xs))
            = length (map (\<lambda>k. xs ! k) [?a..<min ?b ?n])"
      by (simp add: min_def) arith
  next
    fix i
    assume "i < length (take (min ?b ?n - min ?a ?n) (drop (min ?a ?n) xs))"
    then have i0: "i < min ?b ?n - min ?a ?n" by simp
    have a: "min ?a ?n = ?a"
    proof (rule ccontr)
      assume "min ?a ?n \<noteq> ?a"
      then have "min ?a ?n = ?n" by (simp add: min_def split: if_splits)
      with i0 show False by simp
    qed
    have i: "i < min ?b ?n - ?a" using i0 a by simp
    then have "i < ?n - ?a" and "?a + i < min ?b ?n" by arith+
    with i a show "take (min ?b ?n - min ?a ?n) (drop (min ?a ?n) xs) ! i
                 = map (\<lambda>k. xs ! k) [?a..<min ?b ?n] ! i"
      by simp
  qed
  with sl show ?thesis by (simp add: spec_segment_def)
qed

lemma is_counter_causal_spec:
  assumes "0 \<le> c"
  shows "is_counter_causal signs c = spec_counter_causal signs (nat c)"
proof (cases "signs = []")
  case True
  then show ?thesis
    by (simp add: is_counter_causal_def spec_counter_causal_def slice_def spec_segment_def)
next
  case False
  then have len: "0 < length signs" by simp
  have p: "slice signs (max 0 (c - 1)) c = spec_segment signs (max 0 (nat c - 1)) (nat c)"
  proof -
    have "nat (max 0 (c - 1)) = max 0 (nat c - 1)" using assms by simp
    then show ?thesis using assms slice_nonneg [of "max 0 (c - 1)" c signs] by simp
  qed
  have n: "slice signs c (min (c + 1) (int (length signs) - 1))
             = spec_segment signs (nat c) (min (nat c + 1) (length signs - 1))"
  proof -
    have "0 \<le> min (c + 1) (int (length signs) - 1)" using assms len by simp
    moreover have "nat (min (c + 1) (int (length signs) - 1))
                     = min (nat c + 1) (length signs - 1)"
    proof (cases "c + 1 \<le> int (length signs) - 1")
      case True
      then have "nat c + 1 \<le> length signs - 1" using assms by linarith
      with True show ?thesis using assms by (simp add: nat_add_distrib)
    next
      case False
      then have "\<not> nat c + 1 \<le> length signs - 1" using assms len by linarith
      with False show ?thesis using len by (simp add: min_def nat_diff_distrib)
    qed
    ultimately show ?thesis
      using assms slice_nonneg [of c "min (c + 1) (int (length signs) - 1)" signs] by simp
  qed
  show ?thesis
    unfolding is_counter_causal_def spec_counter_causal_def Let_def p n ..
qed

text \<open>
  C7. With the counter-causal-only filter enabled, a changepoint c the detector
  returns is kept if and only if mean(signs[max(0,c-1):c]) > mean(signs[c:min(c+1,len-1)]);
  with the filter disabled every changepoint is kept. For changepoints that index the
  sign sequence, the loop adds one row (feature, x at c) for each kept changepoint, in
  order.
\<close>

theorem counter_causal_filter:
  assumes "\<forall>c \<in> set cps. 0 \<le> c \<and> c < int (length sorted_x_nz)"
  shows "nm_changepoints counter_causal_only predictor signs sorted_x_nz cps results =
           Inr (results @
                map (\<lambda>c. (predictor, sorted_x_nz ! nat c))
                  (filter (\<lambda>c. counter_causal_only \<longrightarrow> spec_counter_causal signs (nat c)) cps))"
  using assms
proof (induction cps arbitrary: results)
  case Nil
  then show ?case by simp
next
  case (Cons c cps)
  then have c: "0 \<le> c" "c < int (length sorted_x_nz)" by simp_all
  then have get: "getitem sorted_x_nz c = Inr (sorted_x_nz ! nat c)"
    by (simp add: getitem_def)
  have cc: "is_counter_causal signs c = spec_counter_causal signs (nat c)"
    using c(1) by (rule is_counter_causal_spec)
  have IH: "\<And>r. nm_changepoints counter_causal_only predictor signs sorted_x_nz cps r =
           Inr (r @ map (\<lambda>c. (predictor, sorted_x_nz ! nat c))
                  (filter (\<lambda>c. counter_causal_only \<longrightarrow> spec_counter_causal signs (nat c)) cps))"
    using Cons.IH Cons.prems by simp
  show ?case
  proof (cases "counter_causal_only \<and> \<not> spec_counter_causal signs (nat c)")
    case True
    then show ?thesis using cc IH by simp
  next
    case False
    then show ?thesis using cc IH get by (auto simp: bind_e_def)
  qed
qed

theorem counter_causal_filter_witness:
  "nm_changepoints True ''age'' [Fin 1, Fin 1, Fin (- 1), Fin (- 1), Fin 1]
       [Fin 10, Fin 20, Fin 30, Fin 40, Fin 50] [2, 4, 0] []
     = Inr [(''age'', Fin 30)]
   \<and> nm_changepoints False ''age'' [Fin 1, Fin 1, Fin (- 1), Fin (- 1), Fin 1]
       [Fin 10, Fin 20, Fin 30, Fin 40, Fin 50] [2, 4, 0] []
     = Inr [(''age'', Fin 30), (''age'', Fin 50), (''age'', Fin 10)]"
proof -
  let ?signs = "[Fin 1, Fin 1, Fin (- 1), Fin (- 1), Fin 1]"
  let ?x = "[Fin 10, Fin 20, Fin 30, Fin 40, Fin 50]"
  have h: "\<forall>c \<in> set [2, 4, 0]. 0 \<le> c \<and> c < int (length ?x)" by simp
  have "spec_counter_causal ?signs (nat 2)" "\<not> spec_counter_causal ?signs (nat 4)"
    "\<not> spec_counter_causal ?signs (nat 0)"
    by (simp_all add: spec_counter_causal_def spec_segment_def np_mean_def upt_rec)
  then show ?thesis
    using counter_causal_filter [OF h, of True "''age''" ?signs "[]"]
      counter_causal_filter [OF h, of False "''age''" ?signs "[]"]
    by simp
qed

subsection \<open>Features with fewer than three signs\<close>

lemma take_idx_map_int:
  assumes "\<And>k. k \<in> set ks \<Longrightarrow> k < length xs"
  shows "take_idx xs (map int ks) = Inr (map (\<lambda>k. xs ! k) ks)"
  using assms by (induction ks) (simp_all add: getitem_nth bind_e_def)

lemma nonzero_idx_eq:
  "nonzero_idx col =
     map int (filter (\<lambda>i. fl_gt (fl_abs (col ! i)) (Fin (1 / 10 ^ 8))) [0..<length col])"
proof -
  have "filter (\<lambda>i. map (\<lambda>s. fl_gt (fl_abs s) (Fin (1 / 10 ^ 8))) col ! i) [0..<length col]
        = filter (\<lambda>i. fl_gt (fl_abs (col ! i)) (Fin (1 / 10 ^ 8))) [0..<length col]"
    by (rule filter_cong) auto
  then show ?thesis by (simp add: nonzero_idx_def np_where_def)
qed

lemma take_idx_nonzero:
  "take_idx col (nonzero_idx col)
     = Inr (filter (\<lambda>s. fl_gt (fl_abs s) (Fin (1 / 10 ^ 8))) col)"
proof -
  let ?P = "\<lambda>s. fl_gt (fl_abs s) (Fin (1 / 10 ^ 8))"
  let ?ks = "filter (\<lambda>i. ?P (col ! i)) [0..<length col]"
  have "take_idx col (map int ?ks) = Inr (map (\<lambda>k. col ! k) ?ks)"
    by (rule take_idx_map_int) simp
  moreover have "map (\<lambda>k. col ! k) ?ks = filter ?P (map (\<lambda>k. col ! k) [0..<length col])"
    by (simp add: filter_map comp_def)
  ultimately show ?thesis by (simp add: nonzero_idx_eq map_nth)
qed

lemma take_idx_nonzero_other:
  assumes "length col \<le> length sx"
  shows "\<exists>v. take_idx sx (nonzero_idx col) = Inr v"
proof -
  have "take_idx sx (map int (filter (\<lambda>i. fl_gt (fl_abs (col ! i)) (Fin (1 / 10 ^ 8)))
                       [0..<length col]))
          = Inr (map (\<lambda>k. sx ! k) (filter (\<lambda>i. fl_gt (fl_abs (col ! i)) (Fin (1 / 10 ^ 8)))
                       [0..<length col]))"
    using assms by (intro take_idx_map_int) simp
  then show ?thesis by (simp add: nonzero_idx_eq)
qed

text \<open>
  C8. A feature whose sign sequence (the slopes of magnitude above 1e-8, reduced to
  their signs) has fewer than 3 entries adds no rows: whatever the detector, the
  threshold and the filter flag, a turn of the feature loop that returns leaves the
  results as they were, and it does return when the feature's column exists, the
  argsort indexes it and the sorted values are at least as many as the slopes.
\<close>

theorem few_signs_no_rows:
  assumes "np_column slopes (int j) = Inr col" and "length (spec_signs col) < 3"
  shows "(\<forall>r. nm_feature argsort det data_df slopes prob_threshold counter_causal_only
                (j, predictor) results = Inr r \<longrightarrow> r = results)
         \<and> (\<forall>vals sx. df_col data_df predictor = Inr vals
                \<and> take_idx vals (argsort vals) = Inr sx \<and> length col \<le> length sx
              \<longrightarrow> nm_feature argsort det data_df slopes prob_threshold counter_causal_only
                    (j, predictor) results = Inr results)"
proof -
  have few: "length (sign_only (filter (\<lambda>s. fl_gt (fl_abs s) (Fin (1 / 10 ^ 8))) col)) < 3"
    using assms(2) by (simp add: spec_signs_def sign_only_def)
  have a: "r = results"
    if "nm_feature argsort det data_df slopes prob_threshold counter_causal_only
          (j, predictor) results = Inr r" for r
    using that assms(1) few
    by (auto simp: nm_feature_def bind_e_def Let_def take_idx_nonzero split: sum.splits)
  have b: "nm_feature argsort det data_df slopes prob_threshold counter_causal_only
             (j, predictor) results = Inr results"
    if h1: "df_col data_df predictor = Inr vals" and h2: "take_idx vals (argsort vals) = Inr sx"
      and h3: "length col \<le> length sx" for vals sx
  proof -
    obtain v where "take_idx sx (nonzero_idx col) = Inr v"
      using h3 take_idx_nonzero_other by blast
    then show ?thesis
      using h1 h2 assms(1) few
      by (simp add: nm_feature_def bind_e_def Let_def take_idx_nonzero)
  qed
  show ?thesis using a b by blast
qed

theorem few_signs_no_rows_witness:
  "np_column [[Fin 1], [Fin 0], [Fin 2]] (int 0) = Inr [Fin 1, Fin 0, Fin 2]
   \<and> length (spec_signs [Fin 1, Fin 0, Fin 2]) < 3
   \<and> nm_feature identity_order (\<lambda>signs threshold. [0])
         [(''age'', [Fin 10, Fin 20, Fin 30, Fin 40])] [[Fin 1], [Fin 0], [Fin 2]]
         (Fin (1 / 5)) False (0, ''age'') [] = Inr []"
proof -
  let ?S = "[[Fin 1], [Fin 0], [Fin 2]]" and ?col = "[Fin 1, Fin 0, Fin 2]"
  let ?vals = "[Fin 10, Fin 20, Fin 30, Fin 40]"
  let ?df = "[(''age'', ?vals)]"
  have h1: "np_column ?S (int 0) = Inr ?col" by (simp add: bind_e_def getitem_def)
  have h2: "length (spec_signs ?col) < 3" by (simp add: spec_signs_def)
  have h3: "df_col ?df ''age'' = Inr ?vals" by (simp add: df_col_def)
  have h4: "take_idx ?vals (identity_order ?vals) = Inr ?vals"
    by (simp add: identity_order_def upt_rec bind_e_def getitem_def)
  have h5: "length ?col \<le> length ?vals" by simp
  from few_signs_no_rows [OF h1 h2, of identity_order "\<lambda>signs threshold. [0]" ?df
         "Fin (1 / 5)" False "''age''" "[]"] h3 h4 h5
  have "nm_feature identity_order (\<lambda>signs threshold. [0]) ?df ?S (Fin (1 / 5)) False
          (0, ''age'') [] = Inr []"
    by blast
  with h1 h2 show ?thesis by simp
qed

subsection \<open>The result tables\<close>

lemmas table_defs =
  sorted_xy_def df_col_def identity_order_def np_array_T_def np_array_width_def
  hstack_names_def pd_DataFrame_def sort_values_desc_def nm_feature_def nonzero_idx_def
  sign_only_def calculate_slopes_def find_non_monotonicities_from_ebm_def
  find_discontinuities_from_ebm_def

lemma pd_DataFrame_no_rows:
  assumes "length cols \<noteq> 1"
  shows "pd_DataFrame [] cols = Inl ValueError"
  using assms by (simp add: pd_DataFrame_def np_array_width_def)

lemma no_discontinuities_raise:
  assumes "disc_features fmt argsort embeddings data_df y_true min_samples
             (enumerate 0 (map fst data_df)) [] st = (Inr [], st')"
  shows "find_discontinuities_from_ebm fmt argsort st embeddings data_df y_true min_samples
           = (Inl ValueError, st')"
  using assms
  by (simp add: find_discontinuities_from_ebm_def pd_DataFrame_no_rows bind_e_def)

lemma no_non_monotonicities_raise:
  assumes "calculate_slopes argsort st embeddings data_df = (Inr slopes, st')"
    and "nm_features argsort det data_df slopes prob_threshold counter_causal_only
           (enumerate 0 (map fst data_df)) [] = Inr []"
  shows "find_non_monotonicities_from_ebm fmt argsort det st embeddings data_df prob_threshold
           counter_causal_only = (Inl ValueError, st')"
  using assms
  by (simp add: find_non_monotonicities_from_ebm_def pd_DataFrame_no_rows bind_e_def)

text \<open>
  C3. When no feature yields a row, each detector returns an empty table with its
  columns. In the source the rows then form \<open>np.array([])\<close>, one-dimensional, and the
  table constructor raises ValueError for the two (or five) column names: on one
  feature with x = [0, 1, 2] and a flat shape function both detectors end in that
  exception.
\<close>

theorem no_rows_raise_ValueError:
  "fst (find_non_monotonicities_from_ebm fmt identity_order det default_errstate
          [[Fin 0, Fin 0, Fin 0]] [(''age'', [Fin 0, Fin 1, Fin 2])]
          prob_threshold counter_causal_only) = Inl ValueError
   \<and> fst (find_discontinuities_from_ebm fmt identity_order default_errstate
          [[Fin 0, Fin 0, Fin 0]] [(''age'', [Fin 0, Fin 1, Fin 2])]
          [Fin 0, Fin 1, Fin 0] 100) = Inl ValueError"
proof (intro conjI)
  show "fst (find_non_monotonicities_from_ebm fmt identity_order det default_errstate
          [[Fin 0, Fin 0, Fin 0]] [(''age'', [Fin 0, Fin 1, Fin 2])]
          prob_threshold counter_causal_only) = Inl ValueError"
    by (simp add: table_defs eval_defs0)
  show "fst (find_discontinuities_from_ebm fmt identity_order default_errstate
          [[Fin 0, Fin 0, Fin 0]] [(''age'', [Fin 0, Fin 1, Fin 2])]
          [Fin 0, Fin 1, Fin 0] 100) = Inl ValueError"
    by (simp add: table_defs eval_defs)
qed

lemma sort_values_desc_text_order:
  assumes "index_of col (tbl_columns df) = Some k"
  shows "\<exists>t. sort_values_desc df col = Inr t
           \<and> sorted (rev (map (\<lambda>row. row ! k) (tbl_rows t)))"
  using assms by (simp add: sort_values_desc_def rev_map [symmetric])

lemma example_rows:
  "fst (find_discontinuities_in_sorted default_errstate
          (map Fin [0, 1, 2, 3, 4, 5, 6, 7, 8, 9, 10, 11])
          (map Fin [0, 1, 2, 2, 2, 2, 3, 3, 3, 3, 3, 3])
          (map Fin [0, 0, 1, 1, 1, 1, 1, 1, 1, 1, 1, 1]) 1)
     = Inr [[Fin 1, Fin 5, Fin (exp (9 / 5)), Fin 9], [Fin 5, Fin 9, Fin (exp (16 / 9)), Fin 16]]"
  by (simp add: eval_defs)

lemma text_order: "''16.0'' < ''9.0''" "''9.0'' \<noteq> ''16.0''" "\<not> ''9.0'' \<le> ''16.0''"
  by (simp_all add: less_list_code less_eq_list_code)

text \<open>
  C2. The table of \<open>find_discontinuities_from_ebm\<close> is ordered by the numeric value
  of the P-Ratio column, descending. \<open>np.hstack\<close> with the column of feature names
  turns every number into its text, so \<open>sort_values\<close> compares the P-Ratio cells as
  strings: for one feature with x = 0..11, steps of y after the samples 0, 1 and 5,
  y_true = 0, 0, 1, ..., 1 and min_samples = 1, the two rows have the scores 9 and 16,
  and the row with 9 comes first because the text 9.0 is greater than the text 16.0.
\<close>

theorem p_ratio_sorted_as_text:
  assumes "fmt (Fin 9) = ''9.0''" and "fmt (Fin 16) = ''16.0''"
  shows "\<exists>t. fst (find_discontinuities_from_ebm fmt identity_order default_errstate
                  [map Fin [0, 1, 2, 2, 2, 2, 3, 3, 3, 3, 3, 3]]
                  [(''age'', map Fin [0, 1, 2, 3, 4, 5, 6, 7, 8, 9, 10, 11])]
                  (map Fin [0, 0, 1, 1, 1, 1, 1, 1, 1, 1, 1, 1]) 1) = Inr t
             \<and> map (\<lambda>row. row ! 4) (tbl_rows t) = [''9.0'', ''16.0'']"
proof -
  let ?x = "map Fin [0, 1, 2, 3, 4, 5, 6, 7, 8, 9, 10, 11]"
  let ?y = "map Fin [0, 1, 2, 2, 2, 2, 3, 3, 3, 3, 3, 3]"
  let ?t = "map Fin [0, 0, 1, 1, 1, 1, 1, 1, 1, 1, 1, 1]"
  have xy: "sorted_xy identity_order [?y] [(''age'', ?x)] 0 ''age'' = Inr (?x, ?y)"
    by (simp add: sorted_xy_def df_col_def identity_order_def bind_e_def getitem_def)
  obtain st' where
    rows: "find_discontinuities_in_sorted default_errstate ?x ?y ?t 1
             = (Inr [[Fin 1, Fin 5, Fin (exp (9 / 5)), Fin 9],
                     [Fin 5, Fin 9, Fin (exp (16 / 9)), Fin 16]], st')"
    using example_rows
    by (cases "find_discontinuities_in_sorted default_errstate ?x ?y ?t 1") simp
  have "fst (find_discontinuities_from_ebm fmt identity_order default_errstate
               [?y] [(''age'', ?x)] ?t 1)
          = Inr \<lparr>tbl_columns = [''Feature'', ''Value'', ''# Samples'', ''Effect Size'', ''P-Ratio''],
                 tbl_rows = [[''age'', fmt (Fin 1), fmt (Fin 5), fmt (Fin (exp (9 / 5))), ''9.0''],
                             [''age'', fmt (Fin 5), fmt (Fin 9), fmt (Fin (exp (16 / 9))), ''16.0'']]\<rparr>"
    using xy rows assms text_order
    by (simp add: find_discontinuities_from_ebm_def hstack_names_def pd_DataFrame_def
                  np_array_width_def sort_values_desc_def bind_e_def)
  then show ?thesis by simp
qed

theorem p_ratio_sorted_as_text_witness:
  "fmt_whole (Fin 9) = ''9.0'' \<and> fmt_whole (Fin 16) = ''16.0''
   \<and> (\<exists>t. fst (find_discontinuities_from_ebm fmt_whole identity_order default_errstate
                  [map Fin [0, 1, 2, 2, 2, 2, 3, 3, 3, 3, 3, 3]]
                  [(''age'', map Fin [0, 1, 2, 3, 4, 5, 6, 7, 8, 9, 10, 11])]
                  (map Fin [0, 0, 1, 1, 1, 1, 1, 1, 1, 1, 1, 1]) 1) = Inr t
             \<and> map (\<lambda>row. row ! 4) (tbl_rows t) = [''9.0'', ''16.0''])"
proof -
  have h1: "fmt_whole (Fin 9) = ''9.0''" by (simp add: fmt_whole_def decimal.simps)
  have h2: "fmt_whole (Fin 16) = ''16.0''" by (simp add: fmt_whole_def decimal.simps)
  from p_ratio_sorted_as_text [OF h1 h2] h1 h2 show ?thesis by simp
qed

end
